theory Spec2Isabelle
  imports Main "HOL-Library.Word"
begin

section \<open>Python values, errors and identities\<close>

text \<open>
  The values a \<open>Dict[str, Any]\<close> configuration can hold, and the user claims (a dict).
  Floats are left out.
\<close>

datatype pyval =
    PyNone
  | PyBool bool
  | PyInt int
  | PyStr string
  | PyDict "(string \<times> pyval) list"

text \<open>
  Every raise of the source is a value. \<open>LibraryError\<close> is whatever the JWT encoder or
  decoder raises; \<open>Conflict\<close> and \<open>StoreUnavailable\<close> are the two failures of the store.
\<close>

datatype error =
    KeyError string
  | TypeError
  | ValueError
  | OverflowError
  | LibraryError string
  | Conflict
  | StoreUnavailable

definition bind_err :: "error + 'a \<Rightarrow> ('a \<Rightarrow> error + 'b) \<Rightarrow> error + 'b" where
  "bind_err m f = (case m of Inl e \<Rightarrow> Inl e | Inr x \<Rightarrow> f x)"

text \<open>Python truthiness, as \<open>if v:\<close> tests it.\<close>

fun py_truthy :: "pyval \<Rightarrow> bool" where
  "py_truthy PyNone = False"
| "py_truthy (PyBool b) = b"
| "py_truthy (PyInt n) = (n \<noteq> 0)"
| "py_truthy (PyStr s) = (s \<noteq> [])"
| "py_truthy (PyDict kvs) = (kvs \<noteq> [])"

text \<open>
  \<open>Union[UUID, str]\<close>: an identifier is a string or a UUID (a 128-bit integer).
\<close>

datatype uid = Str string | UUID "128 word"

definition hex_digit :: "nat \<Rightarrow> char" where
  "hex_digit n = ''0123456789abcdef'' ! (n mod 16)"

text \<open>\<open>'%032x' % self.int\<close>: the 32 hexadecimal digits, most significant first.\<close>

definition hex32 :: "128 word \<Rightarrow> string" where
  "hex32 w = map (\<lambda>i. hex_digit (unat (drop_bit (4 * (31 - i)) w))) [0..<32]"

text \<open>
  \<open>str(x)\<close>: a string is itself; \<open>UUID.__str__\<close> groups the hexadecimal digits
  8-4-4-4-12.
\<close>

fun py_str :: "uid \<Rightarrow> string" where
  "py_str (Str s) = s"
| "py_str (UUID w) =
     (let h = hex32 w in
      take 8 h @ ''-'' @ take 4 (drop 8 h) @ ''-'' @ take 4 (drop 12 h) @ ''-''
        @ take 4 (drop 16 h) @ ''-'' @ drop 20 h)"

declare py_str.simps(2) [simp del]

section \<open>The signer: NoAppJWTManager\<close>

text \<open>
  Class \<open>NoAppJWTManager\<close> of \<open>chaosplt_auth/rpc.py\<close> (lines 17-67). Its
  configuration \<open>self.config\<close> is the dictionary the service finds under the key
  \<open>jwt\<close>.
\<close>

text \<open>
  The keyword arguments of \<open>flask_jwt_extended.tokens.encode_refresh_token\<close> and
  \<open>encode_access_token\<close>. \<open>expires_delta\<close> is the \<open>timedelta\<close>, in seconds.
\<close>

datatype json_encoder = JSONEncoder

record refresh_args =
  identity :: uid
  secret :: pyval
  algorithm :: pyval
  expires_delta :: int
  user_claims :: pyval
  csrf :: bool
  identity_claim_key :: pyval
  user_claims_key :: pyval
  json_encoder :: json_encoder

record access_args = refresh_args +
  fresh :: bool

text \<open>
  What the signer uses and the repository does not define: Python's \<open>int\<close> on a string
  (\<open>None\<close> where it raises ValueError), the \<open>_user_claims_callback\<close> hook of the
  inherited JWTManager, and the two encoders of the JWT library. An encoder reads the
  clock and draws a random token identifier; the function here is the encoder at one
  instant, and it may raise.
\<close>

record externals =
  int_of_str :: "string \<Rightarrow> int option"
  user_claims_callback :: "uid \<Rightarrow> error + pyval"
  encode_access_token :: "access_args \<Rightarrow> error + string"
  encode_refresh_token :: "refresh_args \<Rightarrow> error + string"

type_synonym jwt_config = "string \<rightharpoonup> pyval"

text \<open>\<open>self.config[k]\<close>: KeyError when the key is missing.\<close>

definition config_get :: "jwt_config \<Rightarrow> string \<Rightarrow> error + pyval" where
  "config_get cfg k = (case cfg k of None \<Rightarrow> Inl (KeyError k) | Some v \<Rightarrow> Inr v)"

text \<open>\<open>int(v)\<close>.\<close>

fun py_int :: "externals \<Rightarrow> pyval \<Rightarrow> error + int" where
  "py_int X PyNone = Inl TypeError"
| "py_int X (PyBool b) = Inr (if b then 1 else 0)"
| "py_int X (PyInt n) = Inr n"
| "py_int X (PyStr s) = (case int_of_str X s of None \<Rightarrow> Inl ValueError | Some n \<Rightarrow> Inr n)"
| "py_int X (PyDict kvs) = Inl TypeError"

text \<open>
  \<open>timedelta(seconds=n)\<close>: the value is kept as days and seconds, and the number of days
  must have magnitude at most 999999999.
\<close>

definition timedelta :: "int \<Rightarrow> error + int" where
  "timedelta n = (if \<bar>n div 86400\<bar> > 999999999 then Inl OverflowError else Inr n)"

text \<open>The two callbacks of lines 23-27: the secret of the configuration, and the identity as it is.\<close>

definition encode_key_callback :: "jwt_config \<Rightarrow> uid \<Rightarrow> error + pyval" where
  "encode_key_callback cfg ident = config_get cfg ''secret_key''"

definition user_identity_callback :: "uid \<Rightarrow> uid" where
  "user_identity_callback ident = ident"

text \<open>
  \<open>_create_refresh_token\<close> (lines 29-49), up to the call of the encoder: the lifetime,
  the claims (only if the flag of the configuration is true), then the keyword arguments
  in the order the source writes them.
\<close>

definition refresh_token_args :: "externals \<Rightarrow> jwt_config \<Rightarrow> uid \<Rightarrow> error + refresh_args" where
  "refresh_token_args X cfg ident =
     bind_err (config_get cfg ''refresh_token_expires'') (\<lambda>v.
     bind_err (py_int X v) (\<lambda>n.
     bind_err (timedelta n) (\<lambda>delta.
     bind_err (config_get cfg ''user_claims_in_refresh_token'') (\<lambda>flag.
     bind_err (if py_truthy flag then user_claims_callback X ident else Inr PyNone) (\<lambda>claims.
     bind_err (encode_key_callback cfg ident) (\<lambda>key.
     bind_err (config_get cfg ''algorithm'') (\<lambda>alg.
     bind_err (config_get cfg ''identity_claim_key'') (\<lambda>ick.
     bind_err (config_get cfg ''user_claims_key'') (\<lambda>uck.
       Inr \<lparr>identity = user_identity_callback ident, secret = key, algorithm = alg,
            expires_delta = delta, user_claims = claims, csrf = False,
            identity_claim_key = ick, user_claims_key = uck,
            json_encoder = JSONEncoder\<rparr>)))))))))"

definition jwt_create_refresh_token :: "externals \<Rightarrow> jwt_config \<Rightarrow> uid \<Rightarrow> error + string" where
  "jwt_create_refresh_token X cfg ident =
     bind_err (refresh_token_args X cfg ident) (encode_refresh_token X)"

text \<open>\<open>_create_access_token\<close> (lines 51-67), in the same way.\<close>

definition access_token_args :: "externals \<Rightarrow> jwt_config \<Rightarrow> uid \<Rightarrow> error + access_args" where
  "access_token_args X cfg ident =
     bind_err (config_get cfg ''access_token_expires'') (\<lambda>v.
     bind_err (py_int X v) (\<lambda>n.
     bind_err (timedelta n) (\<lambda>delta.
     bind_err (encode_key_callback cfg ident) (\<lambda>key.
     bind_err (config_get cfg ''algorithm'') (\<lambda>alg.
     bind_err (user_claims_callback X ident) (\<lambda>claims.
     bind_err (config_get cfg ''identity_claim_key'') (\<lambda>ick.
     bind_err (config_get cfg ''user_claims_key'') (\<lambda>uck.
       Inr \<lparr>identity = user_identity_callback ident, secret = key, algorithm = alg,
            expires_delta = delta, user_claims = claims, csrf = False,
            identity_claim_key = ick, user_claims_key = uck,
            json_encoder = JSONEncoder, fresh = False\<rparr>))))))))"

definition jwt_create_access_token :: "externals \<Rightarrow> jwt_config \<Rightarrow> uid \<Rightarrow> error + string" where
  "jwt_create_access_token X cfg ident =
     bind_err (access_token_args X cfg ident) (encode_access_token X)"


section \<open>The service: AuthRPC\<close>

text \<open>
  Class \<open>AuthRPC\<close> of \<open>chaosplt_auth/rpc.py\<close> (lines 70-168). The object the storage
  returns, with the attributes the service reads from it
  (\<open>token.id\<close>, \<open>token.user_id\<close>, ..., \<open>token.issed_on\<close>, ..., \<open>token.jti\<close>), and the
  \<open>AccessToken\<close> message the service builds from it. Timestamps are seconds.
\<close>

record token_row =
  tok_id :: uid
  tok_user_id :: uid
  tok_name :: string
  tok_access_token :: string
  tok_refresh_token :: string
  tok_revoked :: bool
  tok_issed_on :: int
  tok_last_used_on :: "int option"
  tok_jti :: string

record AccessToken =
  at_id :: string
  at_user_id :: string
  at_name :: string
  at_access_token :: string
  at_refresh_token :: string
  at_revoked :: bool
  at_issued_on :: int
  at_last_used_on :: "int option"
  at_jti :: string

text \<open>
  \<open>self.storage.access_token\<close>: the storage is handed to the service at construction,
  so the service is defined for any storage with these seven operations. Each takes the
  state of the storage and returns it, next to a result or an error.
\<close>

record 's token_store =
  st_create :: "string \<Rightarrow> uid \<Rightarrow> string \<Rightarrow> string \<Rightarrow> 's \<Rightarrow> (error + token_row) \<times> 's"
  st_delete :: "uid \<Rightarrow> uid \<Rightarrow> 's \<Rightarrow> (error + unit) \<times> 's"
  st_revoke :: "uid \<Rightarrow> uid \<Rightarrow> 's \<Rightarrow> (error + unit) \<times> 's"
  st_get :: "uid \<Rightarrow> 's \<Rightarrow> (error + token_row option) \<times> 's"
  st_get_by_name :: "uid \<Rightarrow> string \<Rightarrow> 's \<Rightarrow> (error + token_row option) \<times> 's"
  st_get_by_jti :: "uid \<Rightarrow> string \<Rightarrow> 's \<Rightarrow> (error + token_row option) \<times> 's"
  st_get_by_user :: "uid \<Rightarrow> 's \<Rightarrow> (error + (uid \<times> token_row) list) \<times> 's"

text \<open>
  The \<open>AccessToken(id=str(token.id), ...)\<close> expression, which the source writes out in
  each of the five operations that return records.
\<close>

definition to_AccessToken :: "token_row \<Rightarrow> AccessToken" where
  "to_AccessToken token =
     \<lparr>at_id = py_str (tok_id token),
      at_user_id = py_str (tok_user_id token),
      at_name = tok_name token,
      at_access_token = tok_access_token token,
      at_refresh_token = tok_refresh_token token,
      at_revoked = tok_revoked token,
      at_issued_on = tok_issed_on token,
      at_last_used_on = tok_last_used_on token,
      at_jti = tok_jti token\<rparr>"

text \<open>
  The two \<open>if not ...: ... = self.jwt._create_..._token(str(user_id))\<close> statements of
  \<open>create_access_token\<close>. An argument left out is \<open>None\<close>; \<open>not t\<close> holds for
  \<open>None\<close> and for the empty string.
\<close>

definition access_token_or_new :: "externals \<Rightarrow> jwt_config \<Rightarrow> uid \<Rightarrow> string option \<Rightarrow> error + string" where
  "access_token_or_new X cfg user_id access_token =
     (case access_token of
        None \<Rightarrow> jwt_create_access_token X cfg (Str (py_str user_id))
      | Some t \<Rightarrow> if t = [] then jwt_create_access_token X cfg (Str (py_str user_id))
                  else Inr t)"

definition refresh_token_or_new :: "externals \<Rightarrow> jwt_config \<Rightarrow> uid \<Rightarrow> string option \<Rightarrow> error + string" where
  "refresh_token_or_new X cfg user_id refresh_token =
     (case refresh_token of
        None \<Rightarrow> jwt_create_refresh_token X cfg (Str (py_str user_id))
      | Some t \<Rightarrow> if t = [] then jwt_create_refresh_token X cfg (Str (py_str user_id))
                  else Inr t)"

text \<open>\<open>create_access_token\<close> (lines 76-96).\<close>

definition create_access_token ::
  "externals \<Rightarrow> 's token_store \<Rightarrow> jwt_config \<Rightarrow> uid \<Rightarrow> string \<Rightarrow> string option \<Rightarrow> string option
     \<Rightarrow> 's \<Rightarrow> (error + AccessToken) \<times> 's" where
  "create_access_token X S cfg user_id name access_token refresh_token s =
     (case access_token_or_new X cfg user_id access_token of
        Inl e \<Rightarrow> (Inl e, s)
      | Inr access_token' \<Rightarrow>
          (case refresh_token_or_new X cfg user_id refresh_token of
             Inl e \<Rightarrow> (Inl e, s)
           | Inr refresh_token' \<Rightarrow>
               (case st_create S name user_id access_token' refresh_token' s of
                  (Inl e, s') \<Rightarrow> (Inl e, s')
                | (Inr token, s') \<Rightarrow> (Inr (to_AccessToken token), s'))))"


definition revoke_access_token :: "'s token_store \<Rightarrow> uid \<Rightarrow> uid \<Rightarrow> 's \<Rightarrow> (error + unit) \<times> 's" where
  "revoke_access_token S user_id token_id s = st_revoke S user_id token_id s"

text \<open>
  \<open>get\<close>, \<open>get_by_name\<close> and \<open>get_by_jti\<close> (lines 104-150) do the same with what the
  store returns: \<open>if not token: return None\<close>, then the message.
\<close>

definition found :: "(error + token_row option) \<times> 's \<Rightarrow> (error + AccessToken option) \<times> 's" where
  "found r =
     (case r of
        (Inl e, s') \<Rightarrow> (Inl e, s')
      | (Inr None, s') \<Rightarrow> (Inr None, s')
      | (Inr (Some token), s') \<Rightarrow> (Inr (Some (to_AccessToken token)), s'))"

definition get :: "'s token_store \<Rightarrow> uid \<Rightarrow> 's \<Rightarrow> (error + AccessToken option) \<times> 's" where
  "get S token_id s = found (st_get S token_id s)"

definition get_by_name :: "'s token_store \<Rightarrow> uid \<Rightarrow> string \<Rightarrow> 's \<Rightarrow> (error + AccessToken option) \<times> 's" where
  "get_by_name S user_id name s = found (st_get_by_name S user_id name s)"

definition get_by_jti :: "'s token_store \<Rightarrow> uid \<Rightarrow> string \<Rightarrow> 's \<Rightarrow> (error + AccessToken option) \<times> 's" where
  "get_by_jti S user_id jti s = found (st_get_by_jti S user_id jti s)"



section \<open>The storage, from the specification\<close>

text \<open>
  The storage package is not among the sources. Its state: the records, the next
  identifier to hand out, and the time of the store's clock.
\<close>

record store_state =
  rows :: "token_row list"
  next_id :: nat
  clock :: int

text \<open>Identifiers are compared in their string form, the form the service returns them in.\<close>

definition same_uid :: "uid \<Rightarrow> uid \<Rightarrow> bool" where
  "same_uid a b = (py_str a = py_str b)"

definition owned_by :: "uid \<Rightarrow> uid \<Rightarrow> token_row \<Rightarrow> bool" where
  "owned_by user_id token_id r = (same_uid (tok_id r) token_id \<and> same_uid (tok_user_id r) user_id)"

text \<open>
  Modelled from the spec: TokenStore.create(name, user_id, access_token, refresh_token,
  jti), of the storage package. A conflict error if \<open>(user_id, name)\<close> or \<open>jti\<close> already
  exists; otherwise a record with an identifier assigned by the store, \<open>revoked\<close> false
  and \<open>issued_on\<close> set at creation.
\<close>

definition TokenStore_create ::
  "string \<Rightarrow> uid \<Rightarrow> string \<Rightarrow> string \<Rightarrow> string \<Rightarrow> store_state \<Rightarrow> (error + token_row) \<times> store_state" where
  "TokenStore_create name user_id access_token refresh_token jti s =
     (if list_ex (\<lambda>r. (same_uid (tok_user_id r) user_id \<and> tok_name r = name) \<or> tok_jti r = jti) (rows s)
      then (Inl Conflict, s)
      else
        (let token = \<lparr>tok_id = UUID (word_of_nat (next_id s)), tok_user_id = user_id,
                       tok_name = name, tok_access_token = access_token,
                       tok_refresh_token = refresh_token, tok_revoked = False,
                       tok_issed_on = clock s, tok_last_used_on = None, tok_jti = jti\<rparr>
         in (Inr token, s\<lparr>rows := rows s @ [token], next_id := Suc (next_id s)\<rparr>)))"

text \<open>
  Modelled from the spec: the service calls create with four arguments, so the store
  obtains the \<open>jti\<close> of the access token itself, with a decoder \<open>jti_of\<close> of the JWT
  library, and surfaces the decoder's error.
\<close>

definition TokenStore_create4 ::
  "(string \<Rightarrow> error + string) \<Rightarrow> string \<Rightarrow> uid \<Rightarrow> string \<Rightarrow> string \<Rightarrow> store_state
     \<Rightarrow> (error + token_row) \<times> store_state" where
  "TokenStore_create4 jti_of name user_id access_token refresh_token s =
     (case jti_of access_token of
        Inl e \<Rightarrow> (Inl e, s)
      | Inr jti \<Rightarrow> TokenStore_create name user_id access_token refresh_token jti s)"

text \<open>Modelled from the spec: TokenStore.get(token_id), record or absent.\<close>

definition TokenStore_get :: "uid \<Rightarrow> store_state \<Rightarrow> (error + token_row option) \<times> store_state" where
  "TokenStore_get token_id s = (Inr (find (\<lambda>r. same_uid (tok_id r) token_id) (rows s)), s)"

text \<open>Modelled from the spec: TokenStore.get_by_name(user_id, name), record or absent.\<close>

definition TokenStore_get_by_name ::
  "uid \<Rightarrow> string \<Rightarrow> store_state \<Rightarrow> (error + token_row option) \<times> store_state" where
  "TokenStore_get_by_name user_id name s =
     (Inr (find (\<lambda>r. same_uid (tok_user_id r) user_id \<and> tok_name r = name) (rows s)), s)"

text \<open>Modelled from the spec: TokenStore.get_by_jti(user_id, jti), record or absent.\<close>

definition TokenStore_get_by_jti ::
  "uid \<Rightarrow> string \<Rightarrow> store_state \<Rightarrow> (error + token_row option) \<times> store_state" where
  "TokenStore_get_by_jti user_id jti s =
     (Inr (find (\<lambda>r. same_uid (tok_user_id r) user_id \<and> tok_jti r = jti) (rows s)), s)"

text \<open>
  Modelled from the spec: TokenStore.get_by_user(user_id), the collection of the user's
  records (the service reads its \<open>values()\<close>), keyed here by record identifier.
\<close>

definition TokenStore_get_by_user ::
  "uid \<Rightarrow> store_state \<Rightarrow> (error + (uid \<times> token_row) list) \<times> store_state" where
  "TokenStore_get_by_user user_id s =
     (Inr (map (\<lambda>r. (tok_id r, r)) (filter (\<lambda>r. same_uid (tok_user_id r) user_id) (rows s))), s)"

text \<open>
  Modelled from the spec: TokenStore.revoke(user_id, token_id), idempotent; it sets
  \<open>revoked\<close> on the record of that user and is a silent no-op on a record that is
  missing or not owned.
\<close>

definition TokenStore_revoke :: "uid \<Rightarrow> uid \<Rightarrow> store_state \<Rightarrow> (error + unit) \<times> store_state" where
  "TokenStore_revoke user_id token_id s =
     (Inr (), s\<lparr>rows := map (\<lambda>r. if owned_by user_id token_id r then r\<lparr>tok_revoked := True\<rparr> else r)
                               (rows s)\<rparr>)"

text \<open>
  Modelled from the spec: TokenStore.delete(user_id, token_id); it removes the record
  scoped to the user, and is a silent no-op on a record that is missing or not owned.
\<close>

definition TokenStore_delete :: "uid \<Rightarrow> uid \<Rightarrow> store_state \<Rightarrow> (error + unit) \<times> store_state" where
  "TokenStore_delete user_id token_id s =
     (Inr (), s\<lparr>rows := filter (\<lambda>r. \<not> owned_by user_id token_id r) (rows s)\<rparr>)"

definition TokenStore :: "(string \<Rightarrow> error + string) \<Rightarrow> store_state token_store" where
  "TokenStore jti_of =
     \<lparr>st_create = TokenStore_create4 jti_of,
      st_delete = TokenStore_delete,
      st_revoke = TokenStore_revoke,
      st_get = TokenStore_get,
      st_get_by_name = TokenStore_get_by_name,
      st_get_by_jti = TokenStore_get_by_jti,
      st_get_by_user = TokenStore_get_by_user\<rparr>"

section \<open>A concrete configuration, library and store\<close>

text \<open>
  Instances at which the theorems below are evaluated. The string-to-integer conversion
  reads a non-empty run of decimal digits; the claims hook returns one custom claim; the
  encoders write the kind and the identity into the token, and the decoder reads the
  \<open>jti\<close> of such a token.
\<close>

definition digit_val :: "char \<Rightarrow> int" where
  "digit_val c = int (of_char c) - 48"

definition decimal :: "string \<Rightarrow> int option" where
  "decimal s =
     (if s \<noteq> [] \<and> list_all (\<lambda>c. c \<in> set ''0123456789'') s
      then Some (foldl (\<lambda>acc c. 10 * acc + digit_val c) 0 s) else None)"

definition example_encode_access :: "access_args \<Rightarrow> error + string" where
  "example_encode_access a = Inr (''access.'' @ py_str (identity a))"

definition example_encode_refresh :: "refresh_args \<Rightarrow> error + string" where
  "example_encode_refresh a = Inr (''refresh.'' @ py_str (identity a))"

definition example_jti_of :: "string \<Rightarrow> error + string" where
  "example_jti_of t =
     (if take 7 t = ''access.'' then Inr (''jti-'' @ drop 7 t)
      else Inl (LibraryError ''DecodeError''))"

definition example_externals :: externals where
  "example_externals =
     \<lparr>int_of_str = decimal,
      user_claims_callback = (\<lambda>i. Inr (PyDict [(''role'', PyStr ''admin'')])),
      encode_access_token = example_encode_access,
      encode_refresh_token = example_encode_refresh\<rparr>"

definition example_config :: jwt_config where
  "example_config =
     [''secret_key'' \<mapsto> PyStr ''s3cret'',
      ''algorithm'' \<mapsto> PyStr ''HS256'',
      ''access_token_expires'' \<mapsto> PyInt 900,
      ''refresh_token_expires'' \<mapsto> PyStr ''2592000'',
      ''identity_claim_key'' \<mapsto> PyStr ''identity'',
      ''user_claims_key'' \<mapsto> PyStr ''user_claims'',
      ''user_claims_in_refresh_token'' \<mapsto> PyBool False]"

definition empty_store :: store_state where
  "empty_store = \<lparr>rows = [], next_id = 0, clock = 1000\<rparr>"

text \<open>
  The record and the store after \<open>create_access_token\<close> for user \<open>u1\<close> and name
  \<open>laptop\<close> on the empty store.
\<close>

definition example_token :: token_row where
  "example_token =
     \<lparr>tok_id = UUID 0, tok_user_id = Str ''u1'', tok_name = ''laptop'',
      tok_access_token = ''access.u1'', tok_refresh_token = ''refresh.u1'',
      tok_revoked = False, tok_issed_on = 1000, tok_last_used_on = None,
      tok_jti = ''jti-u1''\<rparr>"

definition example_store :: store_state where
  "example_store = \<lparr>rows = [example_token], next_id = 1, clock = 1000\<rparr>"

text \<open>
  A store that fills the \<open>jti\<close> column with a key it makes from the token string, not
  with the \<open>jti\<close> claim of the token.
\<close>

definition store_made_jti :: "string \<Rightarrow> error + string" where
  "store_made_jti t = Inr (''row-'' @ t)"

section \<open>When the signer returns\<close>

lemma bind_err_Inr_iff: "bind_err m f = Inr y \<longleftrightarrow> (\<exists>x. m = Inr x \<and> f x = Inr y)"
  by (cases m) (simp_all add: bind_err_def)

lemma config_get_Inr_iff: "config_get cfg k = Inr v \<longleftrightarrow> cfg k = Some v"
  by (simp add: config_get_def split: option.splits)

lemma timedelta_Inr_iff: "timedelta n = Inr d \<longleftrightarrow> \<bar>n div 86400\<bar> \<le> 999999999 \<and> d = n"
  by (auto simp: timedelta_def)

lemma access_token_args_Inr_iff:
  "access_token_args X cfg i = Inr a \<longleftrightarrow>
     (\<exists>v n key alg claims ick uck.
        cfg ''access_token_expires'' = Some v \<and> py_int X v = Inr n \<and>
        \<bar>n div 86400\<bar> \<le> 999999999 \<and>
        cfg ''secret_key'' = Some key \<and> cfg ''algorithm'' = Some alg \<and>
        user_claims_callback X i = Inr claims \<and>
        cfg ''identity_claim_key'' = Some ick \<and> cfg ''user_claims_key'' = Some uck \<and>
        a = \<lparr>identity = i, secret = key, algorithm = alg, expires_delta = n,
             user_claims = claims, csrf = False, identity_claim_key = ick,
             user_claims_key = uck, json_encoder = JSONEncoder, fresh = False\<rparr>)"
  unfolding access_token_args_def bind_err_Inr_iff config_get_Inr_iff timedelta_Inr_iff
    encode_key_callback_def user_identity_callback_def
  by auto

lemma refresh_token_args_Inr_iff:
  "refresh_token_args X cfg i = Inr a \<longleftrightarrow>
     (\<exists>v n flag claims key alg ick uck.
        cfg ''refresh_token_expires'' = Some v \<and> py_int X v = Inr n \<and>
        \<bar>n div 86400\<bar> \<le> 999999999 \<and>
        cfg ''user_claims_in_refresh_token'' = Some flag \<and>
        (if py_truthy flag then user_claims_callback X i = Inr claims else claims = PyNone) \<and>
        cfg ''secret_key'' = Some key \<and> cfg ''algorithm'' = Some alg \<and>
        cfg ''identity_claim_key'' = Some ick \<and> cfg ''user_claims_key'' = Some uck \<and>
        a = \<lparr>identity = i, secret = key, algorithm = alg, expires_delta = n,
             user_claims = claims, csrf = False, identity_claim_key = ick,
             user_claims_key = uck, json_encoder = JSONEncoder\<rparr>)"
proof (cases "cfg ''user_claims_in_refresh_token''")
  case None
  then show ?thesis
    unfolding refresh_token_args_def bind_err_Inr_iff config_get_Inr_iff timedelta_Inr_iff
      encode_key_callback_def user_identity_callback_def
    by simp
next
  case (Some flag)
  show ?thesis
  proof (cases "py_truthy flag")
    case True
    with Some show ?thesis
      unfolding refresh_token_args_def bind_err_Inr_iff config_get_Inr_iff timedelta_Inr_iff
        encode_key_callback_def user_identity_callback_def
      by auto
  next
    case False
    with Some show ?thesis
      unfolding refresh_token_args_def bind_err_Inr_iff config_get_Inr_iff timedelta_Inr_iff
        encode_key_callback_def user_identity_callback_def
      by auto
  qed
qed

lemma jwt_create_access_token_Inr_iff:
  "jwt_create_access_token X cfg i = Inr t \<longleftrightarrow>
     (\<exists>a. access_token_args X cfg i = Inr a \<and> encode_access_token X a = Inr t)"
  by (simp add: jwt_create_access_token_def bind_err_Inr_iff)

lemma jwt_create_refresh_token_Inr_iff:
  "jwt_create_refresh_token X cfg i = Inr t \<longleftrightarrow>
     (\<exists>a. refresh_token_args X cfg i = Inr a \<and> encode_refresh_token X a = Inr t)"
  by (simp add: jwt_create_refresh_token_def bind_err_Inr_iff)

text \<open>The signer at the concrete configuration and library.\<close>

lemmas example_defs = example_config_def example_externals_def example_encode_access_def
  example_encode_refresh_def decimal_def digit_val_def

lemma example_access_args:
  "access_token_args example_externals example_config i =
     Inr \<lparr>identity = i, secret = PyStr ''s3cret'', algorithm = PyStr ''HS256'',
          expires_delta = 900, user_claims = PyDict [(''role'', PyStr ''admin'')],
          csrf = False, identity_claim_key = PyStr ''identity'',
          user_claims_key = PyStr ''user_claims'', json_encoder = JSONEncoder,
          fresh = False\<rparr>"
  by (simp add: access_token_args_Inr_iff example_defs)

lemma example_refresh_args:
  "refresh_token_args example_externals example_config i =
     Inr \<lparr>identity = i, secret = PyStr ''s3cret'', algorithm = PyStr ''HS256'',
          expires_delta = 2592000, user_claims = PyNone,
          csrf = False, identity_claim_key = PyStr ''identity'',
          user_claims_key = PyStr ''user_claims'', json_encoder = JSONEncoder\<rparr>"
  by (simp add: refresh_token_args_Inr_iff example_defs)


lemma example_access_token:
  "jwt_create_access_token example_externals example_config i = Inr (''access.'' @ py_str i)"
  by (simp add: jwt_create_access_token_def example_access_args bind_err_def)
     (simp add: example_defs)

lemma example_refresh_token:
  "jwt_create_refresh_token example_externals example_config i = Inr (''refresh.'' @ py_str i)"
  by (simp add: jwt_create_refresh_token_def example_refresh_args bind_err_def)
     (simp add: example_defs)

section \<open>Claims about the signer\<close>





text \<open>
  C4, as the code has it: the signer does not validate the identity at all. For every
  identity, the empty string included, a signing call returns a token exactly when the
  configuration has the keys it reads, the lifetime converts to a number of seconds in
  range, the claims hook returns, and the encoder returns that token on the arguments
  built with the identity unchanged.
\<close>

theorem signer_no_identity_check:
  "(jwt_create_access_token X cfg i = Inr t \<longleftrightarrow>
      (\<exists>v n key alg claims ick uck.
         cfg ''access_token_expires'' = Some v \<and> py_int X v = Inr n \<and>
         \<bar>n div 86400\<bar> \<le> 999999999 \<and>
         cfg ''secret_key'' = Some key \<and> cfg ''algorithm'' = Some alg \<and>
         user_claims_callback X i = Inr claims \<and>
         cfg ''identity_claim_key'' = Some ick \<and> cfg ''user_claims_key'' = Some uck \<and>
         encode_access_token X
           \<lparr>identity = i, secret = key, algorithm = alg, expires_delta = n,
            user_claims = claims, csrf = False, identity_claim_key = ick,
            user_claims_key = uck, json_encoder = JSONEncoder, fresh = False\<rparr> = Inr t)) \<and>
   (jwt_create_refresh_token X cfg i = Inr t' \<longleftrightarrow>
      (\<exists>v n flag claims key alg ick uck.
         cfg ''refresh_token_expires'' = Some v \<and> py_int X v = Inr n \<and>
         \<bar>n div 86400\<bar> \<le> 999999999 \<and>
         cfg ''user_claims_in_refresh_token'' = Some flag \<and>
         (if py_truthy flag then user_claims_callback X i = Inr claims else claims = PyNone) \<and>
         cfg ''secret_key'' = Some key \<and> cfg ''algorithm'' = Some alg \<and>
         cfg ''identity_claim_key'' = Some ick \<and> cfg ''user_claims_key'' = Some uck \<and>
         encode_refresh_token X
           \<lparr>identity = i, secret = key, algorithm = alg, expires_delta = n,
            user_claims = claims, csrf = False, identity_claim_key = ick,
            user_claims_key = uck, json_encoder = JSONEncoder\<rparr> = Inr t'))"
  unfolding jwt_create_access_token_Inr_iff jwt_create_refresh_token_Inr_iff
    access_token_args_Inr_iff refresh_token_args_Inr_iff
  by (intro conjI; blast)

text \<open>C4 at a concrete non-empty identity.\<close>

theorem signer_no_identity_check_witness:
  "jwt_create_access_token example_externals example_config (Str ''alice@example.org'')
     = Inr ''access.alice@example.org'' \<and>
   encode_access_token example_externals
     \<lparr>identity = Str ''alice@example.org'', secret = PyStr ''s3cret'',
      algorithm = PyStr ''HS256'', expires_delta = 900,
      user_claims = PyDict [(''role'', PyStr ''admin'')], csrf = False,
      identity_claim_key = PyStr ''identity'', user_claims_key = PyStr ''user_claims'',
      json_encoder = JSONEncoder, fresh = False\<rparr> = Inr ''access.alice@example.org''"
  using signer_no_identity_check [of example_externals example_config
      "Str ''alice@example.org''" "''access.alice@example.org''" "''refresh.alice@example.org''"]
  by (simp add: example_access_token) (simp add: example_defs)

text \<open>
  C4 as stated fails: the empty identity is not rejected, it is signed like any other.
\<close>

theorem signer_accepts_empty_identity:
  "jwt_create_access_token example_externals example_config (Str '''') = Inr ''access.'' \<and>
   jwt_create_refresh_token example_externals example_config (Str '''') = Inr ''refresh.''"
  by (simp add: example_access_token example_refresh_token)

section \<open>When the service returns\<close>



lemma access_token_or_new_Inr_iff:
  "access_token_or_new X cfg u at = Inr t \<longleftrightarrow>
     (if at = None \<or> at = Some [] then jwt_create_access_token X cfg (Str (py_str u)) = Inr t
      else at = Some t)"
  by (auto simp: access_token_or_new_def split: option.splits)

lemma refresh_token_or_new_Inr_iff:
  "refresh_token_or_new X cfg u rt = Inr t \<longleftrightarrow>
     (if rt = None \<or> rt = Some [] then jwt_create_refresh_token X cfg (Str (py_str u)) = Inr t
      else rt = Some t)"
  by (auto simp: refresh_token_or_new_def split: option.splits)

lemma access_token_or_new_simps:
  "access_token_or_new X cfg u None = jwt_create_access_token X cfg (Str (py_str u))"
  "access_token_or_new X cfg u (Some []) = jwt_create_access_token X cfg (Str (py_str u))"
  "a \<noteq> [] \<Longrightarrow> access_token_or_new X cfg u (Some a) = Inr a"
  by (simp_all add: access_token_or_new_def)

lemma refresh_token_or_new_simps:
  "refresh_token_or_new X cfg u None = jwt_create_refresh_token X cfg (Str (py_str u))"
  "refresh_token_or_new X cfg u (Some []) = jwt_create_refresh_token X cfg (Str (py_str u))"
  "r \<noteq> [] \<Longrightarrow> refresh_token_or_new X cfg u (Some r) = Inr r"
  by (simp_all add: refresh_token_or_new_def)

lemma create_access_token_Inr_iff:
  "create_access_token X S cfg u n at rt s = (Inr m, s') \<longleftrightarrow>
     (\<exists>t t' token. access_token_or_new X cfg u at = Inr t \<and>
        refresh_token_or_new X cfg u rt = Inr t' \<and>
        st_create S n u t t' s = (Inr token, s') \<and> m = to_AccessToken token)"
  by (auto simp: create_access_token_def split: sum.splits prod.splits)

section \<open>The storage of the specification\<close>

lemma TokenStore_sel:
  "st_create (TokenStore d) = TokenStore_create4 d"
  "st_delete (TokenStore d) = TokenStore_delete"
  "st_revoke (TokenStore d) = TokenStore_revoke"
  "st_get (TokenStore d) = TokenStore_get"
  "st_get_by_name (TokenStore d) = TokenStore_get_by_name"
  "st_get_by_jti (TokenStore d) = TokenStore_get_by_jti"
  "st_get_by_user (TokenStore d) = TokenStore_get_by_user"
  by (simp_all add: TokenStore_def)



lemma owned_by_revoked [simp]: "owned_by u t (r\<lparr>tok_revoked := True\<rparr>) = owned_by u t r"
  by (simp add: owned_by_def)

lemma revoke_rows_twice:
  "map (\<lambda>r. if owned_by u t r then r\<lparr>tok_revoked := True\<rparr> else r)
     (map (\<lambda>r. if owned_by u t r then r\<lparr>tok_revoked := True\<rparr> else r) xs)
   = map (\<lambda>r. if owned_by u t r then r\<lparr>tok_revoked := True\<rparr> else r) xs"
  by (induction xs) auto

lemma revoke_rows_none:
  "\<forall>r\<in>set xs. \<not> owned_by u t r \<Longrightarrow>
   map (\<lambda>r. if owned_by u t r then r\<lparr>tok_revoked := True\<rparr> else r) xs = xs"
  by (induction xs) auto

section \<open>The service on the concrete store\<close>

lemma upt32:
  "[0..<32] = [0, 1, 2, 3, 4, 5, 6, 7, 8, 9, 10, 11, 12, 13, 14, 15, 16, 17, 18, 19, 20,
     21, 22, 23, 24, 25, 26, 27, 28, 29, 30, 31]"
  by (simp add: upt_rec)

lemma py_str_UUID_0: "py_str (UUID 0) = ''00000000-0000-0000-0000-000000000000''"
  by (simp add: py_str.simps(2) hex32_def hex_digit_def upt32 drop_bit_eq_div unat_div)

lemma py_str_UUID_example:
  "py_str (UUID 0x12345678123456781234567812345678) = ''12345678-1234-5678-1234-567812345678''"
  by (simp add: py_str.simps(2) hex32_def hex_digit_def upt32 drop_bit_eq_div unat_div)

lemma example_create_empty:
  "TokenStore_create4 example_jti_of n u (''access.'' @ x) t' empty_store =
     (Inr \<lparr>tok_id = UUID 0, tok_user_id = u, tok_name = n,
           tok_access_token = ''access.'' @ x, tok_refresh_token = t', tok_revoked = False,
           tok_issed_on = 1000, tok_last_used_on = None, tok_jti = ''jti-'' @ x\<rparr>,
      \<lparr>rows = [\<lparr>tok_id = UUID 0, tok_user_id = u, tok_name = n,
           tok_access_token = ''access.'' @ x, tok_refresh_token = t', tok_revoked = False,
           tok_issed_on = 1000, tok_last_used_on = None, tok_jti = ''jti-'' @ x\<rparr>],
       next_id = 1, clock = 1000\<rparr>)"
  by (simp add: TokenStore_create4_def example_jti_of_def TokenStore_create_def
      empty_store_def Let_def)

lemma example_run_user:
  "create_access_token example_externals (TokenStore example_jti_of) example_config
     u n None None empty_store
   = (Inr (to_AccessToken
        \<lparr>tok_id = UUID 0, tok_user_id = u, tok_name = n,
         tok_access_token = ''access.'' @ py_str u,
         tok_refresh_token = ''refresh.'' @ py_str u, tok_revoked = False,
         tok_issed_on = 1000, tok_last_used_on = None, tok_jti = ''jti-'' @ py_str u\<rparr>),
      \<lparr>rows = [\<lparr>tok_id = UUID 0, tok_user_id = u, tok_name = n,
         tok_access_token = ''access.'' @ py_str u,
         tok_refresh_token = ''refresh.'' @ py_str u, tok_revoked = False,
         tok_issed_on = 1000, tok_last_used_on = None, tok_jti = ''jti-'' @ py_str u\<rparr>],
       next_id = 1, clock = 1000\<rparr>)"
  using example_create_empty [of n u "py_str u" "''refresh.'' @ py_str u"]
  by (simp add: create_access_token_def access_token_or_new_simps refresh_token_or_new_simps
      example_access_token example_refresh_token TokenStore_sel)

lemma example_run:
  "create_access_token example_externals (TokenStore example_jti_of) example_config
     (Str ''u1'') ''laptop'' None None empty_store
   = (Inr (to_AccessToken example_token), example_store)"
  by (simp add: example_run_user example_token_def example_store_def)

lemma example_store_lookups:
  "st_get (TokenStore example_jti_of) (Str ''t-missing'') example_store
     = (Inr None, example_store)"
  "st_get_by_name (TokenStore example_jti_of) (Str ''u1'') ''phone'' example_store
     = (Inr None, example_store)"
  "st_get_by_jti (TokenStore example_jti_of) (Str ''u2'') ''jti-u1'' example_store
     = (Inr None, example_store)"
  by (simp_all add: TokenStore_sel TokenStore_get_def TokenStore_get_by_name_def
      TokenStore_get_by_jti_def example_store_def example_token_def same_uid_def
      py_str_UUID_0)


lemma example_owned:
  "owned_by (Str ''u1'') (UUID 0) example_token"
  "\<not> owned_by (Str ''u2'') (UUID 0) example_token"
  by (simp_all add: owned_by_def same_uid_def example_token_def)

section \<open>Claims about the service\<close>

text \<open>
  C10: an empty string passed as \<open>access_token\<close> or \<open>refresh_token\<close> is treated exactly as
  an argument left out: a token is signed for \<open>str(user_id)\<close> and that token is handed to
  the store; a non-empty string is handed to the store as given, and nothing is signed
  in its place.
\<close>

theorem empty_token_argument_is_replaced:
  "create_access_token X S cfg u n (Some []) rt s = create_access_token X S cfg u n None rt s \<and>
   create_access_token X S cfg u n at (Some []) s = create_access_token X S cfg u n at None s \<and>
   (jwt_create_access_token X cfg (Str (py_str u)) = Inr t \<longrightarrow>
    jwt_create_refresh_token X cfg (Str (py_str u)) = Inr t' \<longrightarrow>
      create_access_token X S cfg u n (Some []) (Some []) s =
        (case st_create S n u t t' s of
           (Inl e, s') \<Rightarrow> (Inl e, s')
         | (Inr token, s') \<Rightarrow> (Inr (to_AccessToken token), s'))) \<and>
   (a \<noteq> [] \<longrightarrow> r \<noteq> [] \<longrightarrow>
      create_access_token X S cfg u n (Some a) (Some r) s =
        (case st_create S n u a r s of
           (Inl e, s') \<Rightarrow> (Inl e, s')
         | (Inr token, s') \<Rightarrow> (Inr (to_AccessToken token), s'))) \<and>
   (a \<noteq> [] \<longrightarrow> jwt_create_refresh_token X cfg (Str (py_str u)) = Inr t' \<longrightarrow>
      create_access_token X S cfg u n (Some a) (Some []) s =
        (case st_create S n u a t' s of
           (Inl e, s') \<Rightarrow> (Inl e, s')
         | (Inr token, s') \<Rightarrow> (Inr (to_AccessToken token), s'))) \<and>
   (r \<noteq> [] \<longrightarrow> jwt_create_access_token X cfg (Str (py_str u)) = Inr t \<longrightarrow>
      create_access_token X S cfg u n (Some []) (Some r) s =
        (case st_create S n u t r s of
           (Inl e, s') \<Rightarrow> (Inl e, s')
         | (Inr token, s') \<Rightarrow> (Inr (to_AccessToken token), s')))"
  by (simp add: create_access_token_def access_token_or_new_simps refresh_token_or_new_simps
      cong: sum.case_cong)

text \<open>
  C10 on the empty store: two empty strings give the record of two signed tokens; two
  non-empty strings are stored as they are.
\<close>

theorem empty_token_argument_is_replaced_witness:
  "create_access_token example_externals (TokenStore example_jti_of) example_config
     (Str ''u1'') ''laptop'' (Some '''') (Some '''') empty_store
   = (Inr (to_AccessToken example_token), example_store) \<and>
   create_access_token example_externals (TokenStore example_jti_of) example_config
     (Str ''u1'') ''laptop'' (Some ''access.mine'') (Some ''kept'') empty_store
   = (Inr (to_AccessToken (example_token\<lparr>tok_access_token := ''access.mine'',
          tok_refresh_token := ''kept'', tok_jti := ''jti-mine''\<rparr>)),
      example_store\<lparr>rows := [example_token\<lparr>tok_access_token := ''access.mine'',
          tok_refresh_token := ''kept'', tok_jti := ''jti-mine''\<rparr>]\<rparr>)"
  using empty_token_argument_is_replaced [of example_externals "TokenStore example_jti_of"
      example_config "Str ''u1''" "''laptop''" None empty_store None "''access.u1''"
      "''refresh.u1''" "''access.mine''" "''kept''"]
    example_create_empty [of "''laptop''" "Str ''u1''" "''u1''" "''refresh.u1''"]
    example_create_empty [of "''laptop''" "Str ''u1''" "''mine''" "''kept''"]
  by (simp add: example_access_token example_refresh_token TokenStore_sel example_token_def
      example_store_def)

text \<open>
  C9: whenever \<open>create_access_token\<close> returns a record, each token it had to sign (the
  argument left out or empty) was encoded with the identity \<open>str(user_id)\<close>, for the
  access token and for the refresh token alike; the store receives \<open>user_id\<close> itself.
\<close>

theorem create_signs_with_str_user_id:
  assumes "create_access_token X S cfg u n at rt s = (Inr m, s')"
  shows "\<exists>t t' token. st_create S n u t t' s = (Inr token, s') \<and> m = to_AccessToken token \<and>
     (at = None \<or> at = Some [] \<longrightarrow>
        (\<exists>a. access_token_args X cfg (Str (py_str u)) = Inr a \<and>
              identity a = Str (py_str u) \<and> encode_access_token X a = Inr t)) \<and>
     (rt = None \<or> rt = Some [] \<longrightarrow>
        (\<exists>r. refresh_token_args X cfg (Str (py_str u)) = Inr r \<and>
              identity r = Str (py_str u) \<and> encode_refresh_token X r = Inr t'))"
proof -
  from assms obtain t t' token where
    t: "access_token_or_new X cfg u at = Inr t" and
    t': "refresh_token_or_new X cfg u rt = Inr t'" and
    st: "st_create S n u t t' s = (Inr token, s')" "m = to_AccessToken token"
    by (auto simp: create_access_token_Inr_iff)
  have acc: "\<exists>a. access_token_args X cfg (Str (py_str u)) = Inr a \<and>
              identity a = Str (py_str u) \<and> encode_access_token X a = Inr t"
    if "at = None \<or> at = Some []"
  proof -
    from t that have "jwt_create_access_token X cfg (Str (py_str u)) = Inr t"
      by (simp add: access_token_or_new_Inr_iff)
    then obtain a where a: "access_token_args X cfg (Str (py_str u)) = Inr a"
      "encode_access_token X a = Inr t"
      by (auto simp: jwt_create_access_token_Inr_iff)
    from a(1) have "identity a = Str (py_str u)"
      by (auto simp: access_token_args_Inr_iff)
    with a show ?thesis by blast
  qed
  have ref: "\<exists>r. refresh_token_args X cfg (Str (py_str u)) = Inr r \<and>
              identity r = Str (py_str u) \<and> encode_refresh_token X r = Inr t'"
    if "rt = None \<or> rt = Some []"
  proof -
    from t' that have "jwt_create_refresh_token X cfg (Str (py_str u)) = Inr t'"
      by (simp add: refresh_token_or_new_Inr_iff)
    then obtain r where r: "refresh_token_args X cfg (Str (py_str u)) = Inr r"
      "encode_refresh_token X r = Inr t'"
      by (auto simp: jwt_create_refresh_token_Inr_iff)
    from r(1) have "identity r = Str (py_str u)"
      by (auto simp: refresh_token_args_Inr_iff)
    with r show ?thesis by blast
  qed
  from st acc ref show ?thesis by blast
qed

text \<open>C9 for a UUID: both tokens are signed for its hyphenated hexadecimal form.\<close>

theorem create_signs_with_str_user_id_witness:
  "(\<exists>a. access_token_args example_externals example_config
          (Str ''12345678-1234-5678-1234-567812345678'') = Inr a \<and>
        identity a = Str ''12345678-1234-5678-1234-567812345678'' \<and>
        encode_access_token example_externals a
          = Inr ''access.12345678-1234-5678-1234-567812345678'') \<and>
   (\<exists>r. refresh_token_args example_externals example_config
          (Str ''12345678-1234-5678-1234-567812345678'') = Inr r \<and>
        identity r = Str ''12345678-1234-5678-1234-567812345678'' \<and>
        encode_refresh_token example_externals r
          = Inr ''refresh.12345678-1234-5678-1234-567812345678'')"
  using create_signs_with_str_user_id [OF example_run_user
      [of "UUID 0x12345678123456781234567812345678" "''laptop''"]]
  by (auto simp: py_str_UUID_example example_access_args example_refresh_args
      example_externals_def example_encode_access_def example_encode_refresh_def)

text \<open>
  C3: when the store reports no record, each of \<open>get\<close>, \<open>get_by_name\<close> and
  \<open>get_by_jti\<close> returns \<open>None\<close> and raises nothing.
\<close>

theorem lookup_absent_returns_None:
  "(st_get S token_id s = (Inr None, s') \<longrightarrow> get S token_id s = (Inr None, s')) \<and>
   (st_get_by_name S user_id name s = (Inr None, s') \<longrightarrow>
      get_by_name S user_id name s = (Inr None, s')) \<and>
   (st_get_by_jti S user_id jti s = (Inr None, s') \<longrightarrow>
      get_by_jti S user_id jti s = (Inr None, s'))"
  by (simp add: get_def get_by_name_def get_by_jti_def found_def)

text \<open>C3 on a store with one record: three lookups that match nothing.\<close>

theorem lookup_absent_returns_None_witness:
  "get (TokenStore example_jti_of) (Str ''t-missing'') example_store
     = (Inr None, example_store) \<and>
   get_by_name (TokenStore example_jti_of) (Str ''u1'') ''phone'' example_store
     = (Inr None, example_store) \<and>
   get_by_jti (TokenStore example_jti_of) (Str ''u2'') ''jti-u1'' example_store
     = (Inr None, example_store)"
  using lookup_absent_returns_None [where S = "TokenStore example_jti_of"
      and token_id = "Str ''t-missing''" and s = example_store and s' = example_store
      and user_id = "Str ''u1''" and name = "''phone''"]
    lookup_absent_returns_None [where S = "TokenStore example_jti_of"
      and s = example_store and s' = example_store
      and user_id = "Str ''u2''" and jti = "''jti-u1''"]
    example_store_lookups
  by simp

text \<open>
  On the store of the specification a lookup that matches no record reports none, so the
  three operations return \<open>None\<close> there.
\<close>

lemma lookup_absent_on_TokenStore:
  "\<forall>r\<in>set (rows z). \<not> same_uid (tok_id r) t \<Longrightarrow>
     get (TokenStore d) t z = (Inr None, z)"
  "\<forall>r\<in>set (rows z). \<not> (same_uid (tok_user_id r) u \<and> tok_name r = n) \<Longrightarrow>
     get_by_name (TokenStore d) u n z = (Inr None, z)"
  "\<forall>r\<in>set (rows z). \<not> (same_uid (tok_user_id r) u \<and> tok_jti r = j) \<Longrightarrow>
     get_by_jti (TokenStore d) u j z = (Inr None, z)"
proof -
  show "get (TokenStore d) t z = (Inr None, z)"
    if "\<forall>r\<in>set (rows z). \<not> same_uid (tok_id r) t"
  proof -
    from that have "find (\<lambda>r. same_uid (tok_id r) t) (rows z) = None"
      by (auto simp: find_None_iff)
    then show ?thesis
      by (simp add: get_def TokenStore_sel TokenStore_get_def found_def)
  qed
  show "get_by_name (TokenStore d) u n z = (Inr None, z)"
    if "\<forall>r\<in>set (rows z). \<not> (same_uid (tok_user_id r) u \<and> tok_name r = n)"
  proof -
    from that have "find (\<lambda>r. same_uid (tok_user_id r) u \<and> tok_name r = n) (rows z) = None"
      by (auto simp: find_None_iff)
    then show ?thesis
      by (simp add: get_by_name_def TokenStore_sel TokenStore_get_by_name_def found_def)
  qed
  show "get_by_jti (TokenStore d) u j z = (Inr None, z)"
    if "\<forall>r\<in>set (rows z). \<not> (same_uid (tok_user_id r) u \<and> tok_jti r = j)"
  proof -
    from that have "find (\<lambda>r. same_uid (tok_user_id r) u \<and> tok_jti r = j) (rows z) = None"
      by (auto simp: find_None_iff)
    then show ?thesis
      by (simp add: get_by_jti_def TokenStore_sel TokenStore_get_by_jti_def found_def)
  qed
qed

text \<open>
  C1, as the code has it: \<open>create_access_token\<close> calls the store's \<open>create\<close> with the
  name, the user identifier, the access token and the refresh token (each one signed
  when the argument is left out or empty, and the caller's string otherwise) and with
  nothing else; it extracts no \<open>jti\<close>. The \<open>jti\<close>, like the tokens, of the record it
  returns is the one of the record the store returned.
\<close>

theorem create_hands_tokens_to_store:
  assumes "create_access_token X S cfg u n at rt s = (Inr m, s')"
  shows "\<exists>t t' token. st_create S n u t t' s = (Inr token, s') \<and>
     (if at = None \<or> at = Some [] then jwt_create_access_token X cfg (Str (py_str u)) = Inr t
      else at = Some t) \<and>
     (if rt = None \<or> rt = Some [] then jwt_create_refresh_token X cfg (Str (py_str u)) = Inr t'
      else rt = Some t') \<and>
     at_access_token m = tok_access_token token \<and>
     at_refresh_token m = tok_refresh_token token \<and>
     at_jti m = tok_jti token"
proof -
  from assms obtain t t' token where
    "access_token_or_new X cfg u at = Inr t" "refresh_token_or_new X cfg u rt = Inr t'"
    "st_create S n u t t' s = (Inr token, s')" "m = to_AccessToken token"
    by (auto simp: create_access_token_Inr_iff)
  then show ?thesis
    unfolding access_token_or_new_Inr_iff refresh_token_or_new_Inr_iff
    by (intro exI [of _ t] exI [of _ t'] exI [of _ token]) (simp add: to_AccessToken_def)
qed

text \<open>C1, as the code has it, on the empty store.\<close>

theorem create_hands_tokens_to_store_witness:
  "\<exists>token. st_create (TokenStore example_jti_of) ''laptop'' (Str ''u1'') ''access.u1''
       ''refresh.u1'' empty_store = (Inr token, example_store) \<and>
     tok_jti token = ''jti-u1''"
  using create_hands_tokens_to_store [OF example_run]
  by (auto simp: example_access_token example_refresh_token to_AccessToken_def
      example_token_def)

text \<open>
  C1 as stated fails: with a store that makes the \<open>jti\<close> column itself, the record
  returned and persisted has a \<open>jti\<close> that is not the \<open>jti\<close> claim of its access token.
\<close>

theorem create_jti_not_from_claims:
  "create_access_token example_externals (TokenStore store_made_jti) example_config
     (Str ''u1'') ''laptop'' None None empty_store
   = (Inr (to_AccessToken (example_token\<lparr>tok_jti := ''row-access.u1''\<rparr>)),
      example_store\<lparr>rows := [example_token\<lparr>tok_jti := ''row-access.u1''\<rparr>]\<rparr>) \<and>
   at_access_token (to_AccessToken (example_token\<lparr>tok_jti := ''row-access.u1''\<rparr>))
     = ''access.u1'' \<and>
   example_jti_of ''access.u1'' = Inr ''jti-u1'' \<and>
   at_jti (to_AccessToken (example_token\<lparr>tok_jti := ''row-access.u1''\<rparr>))
     = ''row-access.u1''"
  by (simp add: create_access_token_def access_token_or_new_simps refresh_token_or_new_simps
      example_access_token example_refresh_token TokenStore_sel TokenStore_create4_def
      store_made_jti_def TokenStore_create_def empty_store_def Let_def example_token_def
      example_store_def to_AccessToken_def example_jti_of_def)

section \<open>Claims that depend on the storage\<close>



text \<open>
  C7: \<open>revoke_access_token\<close> is the store's \<open>revoke\<close> and nothing else (no ownership check
  of its own). On the store of the specification it never raises; a second revoke changes
  nothing; afterwards every record of that identifier and user is revoked, and a record
  revoked before is still there, revoked; when no record has that identifier and user,
  the store is left as it was.
\<close>

theorem revoke_idempotent_and_silent:
  "revoke_access_token S u t s = st_revoke S u t s \<and>
   fst (revoke_access_token (TokenStore d) u t z) = Inr () \<and>
   revoke_access_token (TokenStore d) u t (snd (revoke_access_token (TokenStore d) u t z))
     = (Inr (), snd (revoke_access_token (TokenStore d) u t z)) \<and>
   (\<forall>r\<in>set (rows (snd (revoke_access_token (TokenStore d) u t z))).
      owned_by u t r \<longrightarrow> tok_revoked r) \<and>
   (\<forall>r\<in>set (rows z). tok_revoked r \<longrightarrow>
      r \<in> set (rows (snd (revoke_access_token (TokenStore d) u t z)))) \<and>
   ((\<forall>r\<in>set (rows z). \<not> owned_by u t r) \<longrightarrow>
      revoke_access_token (TokenStore d) u t z = (Inr (), z))"
proof (intro conjI)
  show "revoke_access_token S u t s = st_revoke S u t s"
    by (simp add: revoke_access_token_def)
  show "fst (revoke_access_token (TokenStore d) u t z) = Inr ()"
    by (simp add: revoke_access_token_def TokenStore_sel TokenStore_revoke_def)
  show "revoke_access_token (TokenStore d) u t (snd (revoke_access_token (TokenStore d) u t z))
     = (Inr (), snd (revoke_access_token (TokenStore d) u t z))"
    by (simp add: revoke_access_token_def TokenStore_sel TokenStore_revoke_def revoke_rows_twice)
  show "\<forall>r\<in>set (rows (snd (revoke_access_token (TokenStore d) u t z))).
      owned_by u t r \<longrightarrow> tok_revoked r"
    by (auto simp: revoke_access_token_def TokenStore_sel TokenStore_revoke_def split: if_splits)
  show "\<forall>r\<in>set (rows z). tok_revoked r \<longrightarrow>
      r \<in> set (rows (snd (revoke_access_token (TokenStore d) u t z)))"
  proof (intro ballI impI)
    fix r assume r: "r \<in> set (rows z)" "tok_revoked r"
    then have "(if owned_by u t r then r\<lparr>tok_revoked := True\<rparr> else r) = r"
      by simp
    with r(1) show "r \<in> set (rows (snd (revoke_access_token (TokenStore d) u t z)))"
      by (force simp: revoke_access_token_def TokenStore_sel TokenStore_revoke_def image_iff)
  qed
  show "(\<forall>r\<in>set (rows z). \<not> owned_by u t r) \<longrightarrow>
      revoke_access_token (TokenStore d) u t z = (Inr (), z)"
    by (simp add: revoke_access_token_def TokenStore_sel TokenStore_revoke_def revoke_rows_none)
qed

text \<open>
  C7 on a store with one record of user \<open>u1\<close>: revoked by \<open>u1\<close>, revoked again, and
  left alone by \<open>u2\<close>.
\<close>

theorem revoke_idempotent_and_silent_witness:
  "revoke_access_token (TokenStore example_jti_of) (Str ''u1'') (UUID 0) example_store
     = (Inr (), example_store\<lparr>rows := [example_token\<lparr>tok_revoked := True\<rparr>]\<rparr>) \<and>
   revoke_access_token (TokenStore example_jti_of) (Str ''u1'') (UUID 0)
       (example_store\<lparr>rows := [example_token\<lparr>tok_revoked := True\<rparr>]\<rparr>)
     = (Inr (), example_store\<lparr>rows := [example_token\<lparr>tok_revoked := True\<rparr>]\<rparr>) \<and>
   revoke_access_token (TokenStore example_jti_of) (Str ''u2'') (UUID 0) example_store
     = (Inr (), example_store)"
proof -
  have 1: "revoke_access_token (TokenStore example_jti_of) (Str ''u1'') (UUID 0) example_store
     = (Inr (), example_store\<lparr>rows := [example_token\<lparr>tok_revoked := True\<rparr>]\<rparr>)"
    by (simp add: revoke_access_token_def TokenStore_sel TokenStore_revoke_def
        example_store_def example_owned)
  have 2: "\<forall>r\<in>set (rows example_store). \<not> owned_by (Str ''u2'') (UUID 0) r"
    by (simp add: example_store_def example_owned)
  from revoke_idempotent_and_silent [where S = "TokenStore example_jti_of"
      and d = example_jti_of and u = "Str ''u1''" and t = "UUID 0" and z = example_store,
      THEN conjunct2]
    revoke_idempotent_and_silent [where S = "TokenStore example_jti_of"
      and d = example_jti_of and u = "Str ''u2''" and t = "UUID 0" and z = example_store,
      THEN conjunct2]
    1 2
  show ?thesis by simp
qed




end
